theory Spec2Isabelle
  imports Main
begin

section \<open>Data model of \<^verbatim>\<open>lightning_app/runners/backends/backend.py\<close>\<close>

text \<open>
  Python objects are referred to by reference; a reference is a natural number and the
  program state maps every reference to the object's current attributes.
\<close>

type_synonym app_ref = nat
type_synonym work_ref = nat
type_synonym backend_ref = nat

text \<open>The exceptions that the modelled methods raise or let through.\<close>

datatype error =
    AttributeError string
  | KeyError string
  | OtherError string

text \<open>Values passed as \<^verbatim>\<open>*args\<close> and \<^verbatim>\<open>**kwargs\<close> and returned by a run.\<close>

datatype pyval = PyNone | PyInt int | PyStr string | PyList "pyval list"

subsection \<open>Queues\<close>

text \<open>
  Modelled from the spec: the class \<^verbatim>\<open>QueuingSystem\<close> (\<^verbatim>\<open>lightning_app.core.queues\<close>) is
  not part of the source at hand. The specification describes a queue as a named channel
  identified by \<open>(queue_id, work_name, role)\<close> and gives the getters the signature
  \<^verbatim>\<open>get_<role>_queue(queue_id, work_name=None) -> QueueHandle\<close>. A handle is therefore the
  triple that identifies the channel, and a getter is a function of its arguments.
\<close>

datatype role =
    Caller | OrchestratorRequest | OrchestratorResponse | CopyRequest | CopyResponse
  | Delta | Readiness | Error | ApiStatePublish | ApiDelta

datatype queue = QueueHandle role string "string option"

text \<open>
  The queuing system a backend is constructed with: one getter per method that
  \<^verbatim>\<open>backend.py\<close> calls on \<^verbatim>\<open>self.queues\<close>. The first argument is \<^verbatim>\<open>queue_id\<close>, the second
  (where present) \<^verbatim>\<open>work_name\<close>.
\<close>

record queuing_system =
  get_delta_queue :: "string \<Rightarrow> queue"
  get_readiness_queue :: "string \<Rightarrow> queue"
  get_error_queue :: "string \<Rightarrow> queue"
  get_api_state_publish_queue :: "string \<Rightarrow> queue"
  get_api_delta_queue :: "string \<Rightarrow> queue"
  get_orchestrator_request_queue :: "string \<Rightarrow> string \<Rightarrow> queue"
  get_orchestrator_response_queue :: "string \<Rightarrow> string \<Rightarrow> queue"
  get_orchestrator_copy_request_queue :: "string \<Rightarrow> string \<Rightarrow> queue"
  get_orchestrator_copy_response_queue :: "string \<Rightarrow> string \<Rightarrow> queue"
  get_caller_queue :: "string \<Rightarrow> string \<Rightarrow> queue"

text \<open>
  Modelled from the spec: the queuing system in which every getter returns the handle of
  the channel named by its role and arguments.
\<close>

definition named_queues :: queuing_system where
  "named_queues =
     \<lparr> get_delta_queue = (\<lambda>qid. QueueHandle Delta qid None),
       get_readiness_queue = (\<lambda>qid. QueueHandle Readiness qid None),
       get_error_queue = (\<lambda>qid. QueueHandle Error qid None),
       get_api_state_publish_queue = (\<lambda>qid. QueueHandle ApiStatePublish qid None),
       get_api_delta_queue = (\<lambda>qid. QueueHandle ApiDelta qid None),
       get_orchestrator_request_queue = (\<lambda>qid wn. QueueHandle OrchestratorRequest qid (Some wn)),
       get_orchestrator_response_queue = (\<lambda>qid wn. QueueHandle OrchestratorResponse qid (Some wn)),
       get_orchestrator_copy_request_queue = (\<lambda>qid wn. QueueHandle CopyRequest qid (Some wn)),
       get_orchestrator_copy_response_queue = (\<lambda>qid wn. QueueHandle CopyResponse qid (Some wn)),
       get_caller_queue = (\<lambda>qid wn. QueueHandle Caller qid (Some wn)) \<rparr>"

subsection \<open>Callables\<close>

text \<open>
  What the attribute \<^verbatim>\<open>work.run\<close> can hold:
  \<^item> \<open>Function n\<close>: a function or bound method whose \<^verbatim>\<open>__name__\<close> is \<open>n\<close>;
  \<^item> \<open>Partial b a w f\<close>: the object
    \<^verbatim>\<open>partial(self._dynamic_run_wrapper, app=app, work=work, work_run=f)\<close> built by the
    backend \<open>b\<close>;
  \<^item> \<open>ProxyWorkRun f n w q\<close>: the object
    \<^verbatim>\<open>ProxyWorkRun(work_run=f, work_name=n, work=w, caller_queue=q)\<close>.
\<close>

datatype callable =
    Function string
  | Partial backend_ref app_ref work_ref callable
  | ProxyWorkRun callable string work_ref queue

text \<open>
  The attribute \<^verbatim>\<open>__name__\<close> of a callable. A \<^verbatim>\<open>functools.partial\<close> object has none, and
  neither has an instance of a class that does not define one.
\<close>

fun dunder_name :: "callable \<Rightarrow> string option" where
  "dunder_name (Function n) = Some n"
| "dunder_name (Partial b a w f) = None"
| "dunder_name (ProxyWorkRun f n w q) = None"

fun type_name :: "callable \<Rightarrow> string" where
  "type_name (Function n) = ''function''"
| "type_name (Partial b a w f) = ''functools.partial''"
| "type_name (ProxyWorkRun f n w q) = ''ProxyWorkRun''"

subsection \<open>Works, apps and the program state\<close>

text \<open>
  A work has a name (empty until a flow takes the work as an attribute), a class, the
  attribute \<^verbatim>\<open>run\<close> and the attribute \<^verbatim>\<open>_backend\<close>. An app has the five queues that
  \<^verbatim>\<open>_prepare_queues\<close> assigns (absent before) and six registries, dicts from work names to
  queues.
\<close>

record work =
  name :: string
  class_name :: string
  run :: callable
  backend_attr :: "backend_ref option"

record app =
  delta_queue :: "queue option"
  readiness_queue :: "queue option"
  error_queue :: "queue option"
  api_publish_state_queue :: "queue option"
  api_delta_queue :: "queue option"
  request_queues :: "string \<rightharpoonup> queue"
  response_queues :: "string \<rightharpoonup> queue"
  copy_request_queues :: "string \<rightharpoonup> queue"
  copy_response_queues :: "string \<rightharpoonup> queue"
  caller_queues :: "string \<rightharpoonup> queue"
  work_queues :: "string \<rightharpoonup> queue"

record state =
  apps :: "app_ref \<Rightarrow> app"
  works :: "work_ref \<Rightarrow> work"

definition upd_app :: "app_ref \<Rightarrow> (app \<Rightarrow> app) \<Rightarrow> state \<Rightarrow> state" where
  "upd_app a f s = s\<lparr>apps := (apps s)(a := f (apps s a))\<rparr>"

definition upd_work :: "work_ref \<Rightarrow> (work \<Rightarrow> work) \<Rightarrow> state \<Rightarrow> state" where
  "upd_work w f s = s\<lparr>works := (works s)(w := f (works s w))\<rparr>"

text \<open>
  A call that may raise returns its outcome together with the state it leaves behind: an
  exception does not undo the assignments made before it.
\<close>

type_synonym 'a result = "(error + 'a) \<times> state"

text \<open>
  The class \<^verbatim>\<open>Backend\<close>: the three attributes set by \<^verbatim>\<open>__init__\<close>, the identity of the
  object (what \<^verbatim>\<open>work._backend = self\<close> stores) and the abstract method \<^verbatim>\<open>create_work\<close>,
  which a subclass supplies.
\<close>

record backend =
  ident :: backend_ref
  queues :: queuing_system
  queue_id :: string
  entrypoint_file :: string
  create_work :: "app_ref \<Rightarrow> work_ref \<Rightarrow> state \<Rightarrow> unit result"

section \<open>The methods of \<^verbatim>\<open>Backend\<close>\<close>

text \<open>\<^verbatim>\<open>_prepare_queues\<close>, statement by statement.\<close>

definition prepare_queues :: "backend \<Rightarrow> app_ref \<Rightarrow> state \<Rightarrow> state" where
  "prepare_queues self a s =
     (let kw = queue_id self;
          s = upd_app a (\<lambda>x. x\<lparr>delta_queue := Some (get_delta_queue (queues self) kw)\<rparr>) s;
          s = upd_app a (\<lambda>x. x\<lparr>readiness_queue := Some (get_readiness_queue (queues self) kw)\<rparr>) s;
          s = upd_app a (\<lambda>x. x\<lparr>error_queue := Some (get_error_queue (queues self) kw)\<rparr>) s;
          s = upd_app a (\<lambda>x. x\<lparr>delta_queue := Some (get_delta_queue (queues self) kw)\<rparr>) s;
          s = upd_app a (\<lambda>x. x\<lparr>readiness_queue := Some (get_readiness_queue (queues self) kw)\<rparr>) s;
          s = upd_app a (\<lambda>x. x\<lparr>error_queue := Some (get_error_queue (queues self) kw)\<rparr>) s;
          s = upd_app a (\<lambda>x. x\<lparr>api_publish_state_queue :=
                                  Some (get_api_state_publish_queue (queues self) kw)\<rparr>) s;
          s = upd_app a (\<lambda>x. x\<lparr>api_delta_queue := Some (get_api_delta_queue (queues self) kw)\<rparr>) s;
          s = upd_app a (\<lambda>x. x\<lparr>request_queues := Map.empty\<rparr>) s;
          s = upd_app a (\<lambda>x. x\<lparr>response_queues := Map.empty\<rparr>) s;
          s = upd_app a (\<lambda>x. x\<lparr>copy_request_queues := Map.empty\<rparr>) s;
          s = upd_app a (\<lambda>x. x\<lparr>copy_response_queues := Map.empty\<rparr>) s;
          s = upd_app a (\<lambda>x. x\<lparr>caller_queues := Map.empty\<rparr>) s;
          s = upd_app a (\<lambda>x. x\<lparr>work_queues := Map.empty\<rparr>) s
      in s)"

text \<open>
  The variant the specification asks for: one assignment per queue role, otherwise as
  \<^verbatim>\<open>_prepare_queues\<close>.
\<close>

definition prepare_queues_single :: "backend \<Rightarrow> app_ref \<Rightarrow> state \<Rightarrow> state" where
  "prepare_queues_single self a s =
     (let kw = queue_id self;
          s = upd_app a (\<lambda>x. x\<lparr>delta_queue := Some (get_delta_queue (queues self) kw)\<rparr>) s;
          s = upd_app a (\<lambda>x. x\<lparr>readiness_queue := Some (get_readiness_queue (queues self) kw)\<rparr>) s;
          s = upd_app a (\<lambda>x. x\<lparr>error_queue := Some (get_error_queue (queues self) kw)\<rparr>) s;
          s = upd_app a (\<lambda>x. x\<lparr>api_publish_state_queue :=
                                  Some (get_api_state_publish_queue (queues self) kw)\<rparr>) s;
          s = upd_app a (\<lambda>x. x\<lparr>api_delta_queue := Some (get_api_delta_queue (queues self) kw)\<rparr>) s;
          s = upd_app a (\<lambda>x. x\<lparr>request_queues := Map.empty\<rparr>) s;
          s = upd_app a (\<lambda>x. x\<lparr>response_queues := Map.empty\<rparr>) s;
          s = upd_app a (\<lambda>x. x\<lparr>copy_request_queues := Map.empty\<rparr>) s;
          s = upd_app a (\<lambda>x. x\<lparr>copy_response_queues := Map.empty\<rparr>) s;
          s = upd_app a (\<lambda>x. x\<lparr>caller_queues := Map.empty\<rparr>) s;
          s = upd_app a (\<lambda>x. x\<lparr>work_queues := Map.empty\<rparr>) s
      in s)"

text \<open>
  \<^verbatim>\<open>_register_queues\<close>: each \<^verbatim>\<open>dict.update\<close> stores the handle under the work's name,
  whether or not the name is already a key.
\<close>

definition register_queues :: "backend \<Rightarrow> app_ref \<Rightarrow> work_ref \<Rightarrow> state \<Rightarrow> state" where
  "register_queues self a w s =
     (let qid = queue_id self;
          wn = name (works s w);
          s = upd_app a (\<lambda>x. x\<lparr>request_queues :=
                (request_queues x)(wn \<mapsto> get_orchestrator_request_queue (queues self) qid wn)\<rparr>) s;
          s = upd_app a (\<lambda>x. x\<lparr>response_queues :=
                (response_queues x)(wn \<mapsto> get_orchestrator_response_queue (queues self) qid wn)\<rparr>) s;
          s = upd_app a (\<lambda>x. x\<lparr>copy_request_queues :=
                (copy_request_queues x)(wn \<mapsto> get_orchestrator_copy_request_queue (queues self) qid wn)\<rparr>) s;
          s = upd_app a (\<lambda>x. x\<lparr>copy_response_queues :=
                (copy_response_queues x)(wn \<mapsto> get_orchestrator_copy_response_queue (queues self) qid wn)\<rparr>) s;
          s = upd_app a (\<lambda>x. x\<lparr>caller_queues :=
                (caller_queues x)(wn \<mapsto> get_caller_queue (queues self) qid wn)\<rparr>) s
      in s)"

text \<open>
  The registration step as the specification words it: a registry gets the queue of the
  work only if the work's name is not yet one of its keys.
\<close>

definition register_if_absent :: "(string \<rightharpoonup> queue) \<Rightarrow> string \<Rightarrow> queue \<Rightarrow> (string \<rightharpoonup> queue)" where
  "register_if_absent m wn q = (case m wn of None \<Rightarrow> m(wn \<mapsto> q) | Some q' \<Rightarrow> m)"

definition register_queues_if_absent :: "backend \<Rightarrow> app_ref \<Rightarrow> work_ref \<Rightarrow> state \<Rightarrow> state" where
  "register_queues_if_absent self a w s =
     (let qid = queue_id self;
          wn = name (works s w);
          s = upd_app a (\<lambda>x. x\<lparr>request_queues := register_if_absent (request_queues x) wn
                (get_orchestrator_request_queue (queues self) qid wn)\<rparr>) s;
          s = upd_app a (\<lambda>x. x\<lparr>response_queues := register_if_absent (response_queues x) wn
                (get_orchestrator_response_queue (queues self) qid wn)\<rparr>) s;
          s = upd_app a (\<lambda>x. x\<lparr>copy_request_queues := register_if_absent (copy_request_queues x) wn
                (get_orchestrator_copy_request_queue (queues self) qid wn)\<rparr>) s;
          s = upd_app a (\<lambda>x. x\<lparr>copy_response_queues := register_if_absent (copy_response_queues x) wn
                (get_orchestrator_copy_response_queue (queues self) qid wn)\<rparr>) s;
          s = upd_app a (\<lambda>x. x\<lparr>caller_queues := register_if_absent (caller_queues x) wn
                (get_caller_queue (queues self) qid wn)\<rparr>) s
      in s)"

text \<open>
  The registries of an app that has one backend and one queue id: what a registry holds
  under the work's name, if anything, is the handle that the queuing system of this backend
  gives for the backend's queue id and that name.
\<close>

definition own_or_absent :: "(string \<rightharpoonup> queue) \<Rightarrow> string \<Rightarrow> queue \<Rightarrow> bool" where
  "own_or_absent m wn q \<longleftrightarrow> m wn = None \<or> m wn = Some q"

definition registered_by :: "backend \<Rightarrow> app_ref \<Rightarrow> work_ref \<Rightarrow> state \<Rightarrow> bool" where
  "registered_by self a w s =
     (let qid = queue_id self; wn = name (works s w); x = apps s a
      in own_or_absent (request_queues x) wn (get_orchestrator_request_queue (queues self) qid wn) \<and>
         own_or_absent (response_queues x) wn (get_orchestrator_response_queue (queues self) qid wn) \<and>
         own_or_absent (copy_request_queues x) wn (get_orchestrator_copy_request_queue (queues self) qid wn) \<and>
         own_or_absent (copy_response_queues x) wn (get_orchestrator_copy_response_queue (queues self) qid wn) \<and>
         own_or_absent (caller_queues x) wn (get_caller_queue (queues self) qid wn))"

text \<open>
  The message of the \<^verbatim>\<open>AttributeError\<close> that \<^verbatim>\<open>_dynamic_run_wrapper\<close> raises for a work
  without a name.
\<close>

definition never_attached_msg :: "string \<Rightarrow> string" where
  "never_attached_msg cls =
     ''Failed to create process for '' @ cls @
     ''. Make sure to set this work as an attribute of a `LightningFlow` before calling the run method.''"

text \<open>
  \<^verbatim>\<open>_dynamic_run_wrapper\<close>. The call of the \<^verbatim>\<open>ProxyWorkRun\<close> object in its last line is code of
  \<^verbatim>\<open>lightning_app.utilities.proxies\<close> and is the parameter \<open>call\<close>: it gets the callable,
  \<^verbatim>\<open>args\<close>, \<^verbatim>\<open>kwargs\<close> and the state. Python evaluates the arguments of the constructor
  in order, so a missing key in \<^verbatim>\<open>app.caller_queues\<close> raises before \<^verbatim>\<open>work.run\<close> is assigned.
\<close>

type_synonym proxy_call = "callable \<Rightarrow> pyval list \<Rightarrow> (string \<times> pyval) list \<Rightarrow> state \<Rightarrow> pyval result"

definition dynamic_run_wrapper ::
  "proxy_call \<Rightarrow> backend \<Rightarrow> pyval list \<Rightarrow> (string \<times> pyval) list \<Rightarrow> app_ref \<Rightarrow> work_ref \<Rightarrow>
   callable \<Rightarrow> state \<Rightarrow> pyval result" where
  "dynamic_run_wrapper call self args kwargs a w work_run s =
     (if name (works s w) = [] then
        (Inl (AttributeError (never_attached_msg (class_name (works s w)))), s)
      else
        let s1 = register_queues self a w s;
            s2 = upd_work w (\<lambda>x. x\<lparr>run := work_run\<rparr>) s1
        in case create_work self a w s2 of
             (Inl e, s3) \<Rightarrow> (Inl e, s3)
           | (Inr u, s3) \<Rightarrow>
               (let s4 = upd_work w (\<lambda>x. x\<lparr>backend_attr := Some (ident self)\<rparr>) s3;
                    wn = name (works s4 w)
                in (case caller_queues (apps s4 a) wn of
                      None \<Rightarrow> (Inl (KeyError wn), s4)
                    | Some q \<Rightarrow>
                        (let s5 = upd_work w (\<lambda>x. x\<lparr>run := ProxyWorkRun work_run wn w q\<rparr>) s4
                         in call (run (works s5 w)) args kwargs s5))))"

text \<open>
  \<^verbatim>\<open>_wrap_run_method\<close>. Reading \<^verbatim>\<open>work.run.__name__\<close> raises \<^verbatim>\<open>AttributeError\<close> when the
  callable has no such attribute; the message names the type of the object and the
  attribute (Python's quotation marks are left out). \<^verbatim>\<open>unwrap\<close> is code of
  \<^verbatim>\<open>lightning_app.utilities.proxies\<close> and is a parameter.
\<close>

definition no_attribute_msg :: "callable \<Rightarrow> string" where
  "no_attribute_msg f = type_name f @ '' object has no attribute __name__''"

definition wrap_run_method ::
  "(callable \<Rightarrow> callable) \<Rightarrow> backend \<Rightarrow> app_ref \<Rightarrow> work_ref \<Rightarrow> state \<Rightarrow> unit result" where
  "wrap_run_method unwrap self a w s =
     (case dunder_name (run (works s w)) of
        None \<Rightarrow> (Inl (AttributeError (no_attribute_msg (run (works s w)))), s)
      | Some n \<Rightarrow>
          if n = ''_dynamic_run_wrapper'' then (Inr (), s)
          else (Inr (), upd_work w (\<lambda>x. x\<lparr>run := Partial (ident self) a w (unwrap (run (works s w)))\<rparr>) s))"

text \<open>
  The frame of an interception for the work \<open>w\<close> of the app \<open>a\<close>: between the states \<open>s\<close>
  and \<open>t\<close> nothing has changed but the registries of \<open>a\<close> and the attributes \<^verbatim>\<open>run\<close> and
  \<^verbatim>\<open>_backend\<close> of \<open>w\<close>.
\<close>

definition mutates_only :: "app_ref \<Rightarrow> work_ref \<Rightarrow> state \<Rightarrow> state \<Rightarrow> bool" where
  "mutates_only a w s t \<longleftrightarrow>
     (\<forall>a'. a' \<noteq> a \<longrightarrow> apps t a' = apps s a') \<and>
     delta_queue (apps t a) = delta_queue (apps s a) \<and>
     readiness_queue (apps t a) = readiness_queue (apps s a) \<and>
     error_queue (apps t a) = error_queue (apps s a) \<and>
     api_publish_state_queue (apps t a) = api_publish_state_queue (apps s a) \<and>
     api_delta_queue (apps t a) = api_delta_queue (apps s a) \<and>
     (\<forall>w'. w' \<noteq> w \<longrightarrow> works t w' = works s w') \<and>
     name (works t w) = name (works s w) \<and>
     class_name (works t w) = class_name (works s w)"

section \<open>Concrete objects\<close>

text \<open>
  An app with nothing assigned yet, three works (two attached to a flow under a name, all
  others never attached) and two backends that differ in their \<^verbatim>\<open>queue_id\<close> only.
\<close>

definition empty_app :: app where
  "empty_app =
     \<lparr> delta_queue = None, readiness_queue = None, error_queue = None,
       api_publish_state_queue = None, api_delta_queue = None,
       request_queues = Map.empty, response_queues = Map.empty,
       copy_request_queues = Map.empty, copy_response_queues = Map.empty,
       caller_queues = Map.empty, work_queues = Map.empty \<rparr>"

definition unattached_work :: work where
  "unattached_work =
     \<lparr> name = [], class_name = ''Trainer'', run = Function ''run'', backend_attr = None \<rparr>"

definition example_state :: state where
  "example_state =
     \<lparr> apps = (\<lambda>r. empty_app),
       works = (\<lambda>r. unattached_work)
         (0 := unattached_work\<lparr>name := ''root.trainer''\<rparr>,
          1 := unattached_work\<lparr>name := ''root.worker-1'', class_name := ''Worker''\<rparr>) \<rparr>"

text \<open>A \<^verbatim>\<open>create_work\<close> that records a queue for the work and one that fails.\<close>

definition recording_create_work :: "app_ref \<Rightarrow> work_ref \<Rightarrow> state \<Rightarrow> unit result" where
  "recording_create_work a w s =
     (Inr (), upd_app a (\<lambda>x. x\<lparr>work_queues :=
        (work_queues x)(name (works s w) \<mapsto> QueueHandle Caller ''work'' (Some (name (works s w))))\<rparr>) s)"

definition failing_create_work :: "app_ref \<Rightarrow> work_ref \<Rightarrow> state \<Rightarrow> unit result" where
  "failing_create_work a w s = (Inl (OtherError ''ProvisioningError''), s)"

definition example_backend :: backend where
  "example_backend =
     \<lparr> ident = 7, queues = named_queues, queue_id = ''q1'', entrypoint_file = ''app.py'',
       create_work = recording_create_work \<rparr>"

definition other_backend :: backend where
  "other_backend = example_backend\<lparr>ident := 8, queue_id := ''q2''\<rparr>"

text \<open>A proxy call that answers with its positional arguments and leaves the state alone.\<close>

definition echo_call :: proxy_call where
  "echo_call f args kwargs s = (Inr (PyList args), s)"

text \<open>An \<^verbatim>\<open>unwrap\<close> that strips the two wrappers this module installs.\<close>

fun strip_wrappers :: "callable \<Rightarrow> callable" where
  "strip_wrappers (Partial b a w f) = strip_wrappers f"
| "strip_wrappers (ProxyWorkRun f n w q) = strip_wrappers f"
| "strip_wrappers (Function n) = Function n"

text \<open>
  The state in which \<^verbatim>\<open>create_work\<close> is entered when \<open>example_backend\<close> intercepts the
  first call of work 0, and the state after \<open>example_backend\<close> has wrapped work 0 once.
\<close>

definition example_pre_create :: state where
  "example_pre_create =
     upd_work 0 (\<lambda>x. x\<lparr>run := Function ''run''\<rparr>) (register_queues example_backend 0 0 example_state)"

definition example_wrapped :: state where
  "example_wrapped = snd (wrap_run_method strip_wrappers example_backend 0 0 example_state)"

text \<open>The state after \<open>example_backend\<close> has intercepted a first call of work 0.\<close>

definition example_intercepted :: state where
  "example_intercepted =
     snd (dynamic_run_wrapper echo_call example_backend [] [] 0 0 (Function ''run'') example_state)"

text \<open>A \<^verbatim>\<open>create_work\<close> that also attaches a backend to the work declared next.\<close>

definition meddling_create_work :: "app_ref \<Rightarrow> work_ref \<Rightarrow> state \<Rightarrow> unit result" where
  "meddling_create_work a w s =
     (Inr (), upd_work (Suc w) (\<lambda>x. x\<lparr>backend_attr := Some 9\<rparr>) s)"

section \<open>Basic facts\<close>

lemma apps_upd_app [simp]: "apps (upd_app a f s) = (apps s)(a := f (apps s a))"
  by (simp add: upd_app_def)

lemma works_upd_app [simp]: "works (upd_app a f s) = works s"
  by (simp add: upd_app_def)

lemma apps_upd_work [simp]: "apps (upd_work w f s) = apps s"
  by (simp add: upd_work_def)

lemma works_upd_work [simp]: "works (upd_work w f s) = (works s)(w := f (works s w))"
  by (simp add: upd_work_def)

lemma upd_app_upd_app: "upd_app a f (upd_app a g s) = upd_app a (\<lambda>x. f (g x)) s"
  by (simp add: upd_app_def)

lemma register_queues_eq:
  "register_queues self a w s =
     upd_app a (\<lambda>x. x\<lparr>
       request_queues := (request_queues x)
         (name (works s w) \<mapsto> get_orchestrator_request_queue (queues self) (queue_id self) (name (works s w))),
       response_queues := (response_queues x)
         (name (works s w) \<mapsto> get_orchestrator_response_queue (queues self) (queue_id self) (name (works s w))),
       copy_request_queues := (copy_request_queues x)
         (name (works s w) \<mapsto> get_orchestrator_copy_request_queue (queues self) (queue_id self) (name (works s w))),
       copy_response_queues := (copy_response_queues x)
         (name (works s w) \<mapsto> get_orchestrator_copy_response_queue (queues self) (queue_id self) (name (works s w))),
       caller_queues := (caller_queues x)
         (name (works s w) \<mapsto> get_caller_queue (queues self) (queue_id self) (name (works s w)))\<rparr>) s"
  unfolding register_queues_def Let_def upd_app_upd_app by simp

lemma works_register_queues [simp]: "works (register_queues self a w s) = works s"
  by (simp add: register_queues_eq)

lemma mutates_only_refl: "mutates_only a w s s"
  by (simp add: mutates_only_def)

lemma mutates_only_trans:
  "mutates_only a w s t \<Longrightarrow> mutates_only a w t u \<Longrightarrow> mutates_only a w s u"
  by (simp add: mutates_only_def)

lemma mutates_only_register_queues: "mutates_only a w s (register_queues self a w s)"
  by (simp add: mutates_only_def register_queues_eq)

lemma mutates_only_run: "mutates_only a w s (upd_work w (\<lambda>x. x\<lparr>run := f\<rparr>) s)"
  by (simp add: mutates_only_def)

lemma mutates_only_backend: "mutates_only a w s (upd_work w (\<lambda>x. x\<lparr>backend_attr := b\<rparr>) s)"
  by (simp add: mutates_only_def)

lemma register_if_absent_own: "own_or_absent m wn q \<Longrightarrow> register_if_absent m wn q = m(wn \<mapsto> q)"
  by (auto simp: own_or_absent_def register_if_absent_def)

lemma own_after_upd: "own_or_absent (m(wn \<mapsto> q)) wn q"
  by (simp add: own_or_absent_def)

lemma register_queues_if_absent_eq:
  "register_queues_if_absent self a w s =
     upd_app a (\<lambda>x. x\<lparr>
       request_queues := register_if_absent (request_queues x) (name (works s w))
         (get_orchestrator_request_queue (queues self) (queue_id self) (name (works s w))),
       response_queues := register_if_absent (response_queues x) (name (works s w))
         (get_orchestrator_response_queue (queues self) (queue_id self) (name (works s w))),
       copy_request_queues := register_if_absent (copy_request_queues x) (name (works s w))
         (get_orchestrator_copy_request_queue (queues self) (queue_id self) (name (works s w))),
       copy_response_queues := register_if_absent (copy_response_queues x) (name (works s w))
         (get_orchestrator_copy_response_queue (queues self) (queue_id self) (name (works s w))),
       caller_queues := register_if_absent (caller_queues x) (name (works s w))
         (get_caller_queue (queues self) (queue_id self) (name (works s w)))\<rparr>) s"
  unfolding register_queues_if_absent_def Let_def upd_app_upd_app by simp

lemma register_queues_idem:
  "register_queues self a w (register_queues self a w s) = register_queues self a w s"
  by (simp add: register_queues_eq upd_app_upd_app)

lemma registered_by_register_queues: "registered_by self a w (register_queues self a w s)"
  by (simp add: registered_by_def Let_def register_queues_eq own_after_upd)

lemma register_queues_refines:
  "registered_by self a w s \<Longrightarrow> register_queues self a w s = register_queues_if_absent self a w s"
  by (simp add: registered_by_def Let_def register_queues_eq register_queues_if_absent_eq
      register_if_absent_own)

text \<open>The concrete objects, field by field.\<close>

lemma works_example_state:
  "works example_state 0 =
     \<lparr>name = ''root.trainer'', class_name = ''Trainer'', run = Function ''run'', backend_attr = None\<rparr>"
  "works example_state (Suc 0) =
     \<lparr>name = ''root.worker-1'', class_name = ''Worker'', run = Function ''run'', backend_attr = None\<rparr>"
  by (simp_all add: example_state_def unattached_work_def)

lemma apps_example_state: "apps example_state r = empty_app"
  by (simp add: example_state_def)

lemma example_backend_fields:
  "ident example_backend = 7"
  "queues example_backend = named_queues"
  "queue_id example_backend = ''q1''"
  "create_work example_backend = recording_create_work"
  by (simp_all add: example_backend_def)

lemma other_backend_fields:
  "ident other_backend = 8"
  "queues other_backend = named_queues"
  "queue_id other_backend = ''q2''"
  "create_work other_backend = recording_create_work"
  by (simp_all add: other_backend_def example_backend_def)

lemma named_queues_work_getters:
  "get_orchestrator_request_queue named_queues qid wn = QueueHandle OrchestratorRequest qid (Some wn)"
  "get_orchestrator_response_queue named_queues qid wn = QueueHandle OrchestratorResponse qid (Some wn)"
  "get_orchestrator_copy_request_queue named_queues qid wn = QueueHandle CopyRequest qid (Some wn)"
  "get_orchestrator_copy_response_queue named_queues qid wn = QueueHandle CopyResponse qid (Some wn)"
  "get_caller_queue named_queues qid wn = QueueHandle Caller qid (Some wn)"
  by (simp_all add: named_queues_def)

lemmas example_simps =
  works_example_state apps_example_state example_backend_fields other_backend_fields
  named_queues_work_getters recording_create_work_def failing_create_work_def echo_call_def

lemma works_example_intercepted:
  "works example_intercepted 0 =
     \<lparr>name = ''root.trainer'', class_name = ''Trainer'',
      run = ProxyWorkRun (Function ''run'') ''root.trainer'' 0
              (QueueHandle Caller ''q1'' (Some ''root.trainer'')),
      backend_attr = Some 7\<rparr>"
  by (simp add: example_intercepted_def dynamic_run_wrapper_def register_queues_eq Let_def
      example_simps)

lemma apps_example_intercepted:
  "apps example_intercepted 0 =
     empty_app\<lparr>
       request_queues := [''root.trainer'' \<mapsto> QueueHandle OrchestratorRequest ''q1'' (Some ''root.trainer'')],
       response_queues := [''root.trainer'' \<mapsto> QueueHandle OrchestratorResponse ''q1'' (Some ''root.trainer'')],
       copy_request_queues := [''root.trainer'' \<mapsto> QueueHandle CopyRequest ''q1'' (Some ''root.trainer'')],
       copy_response_queues := [''root.trainer'' \<mapsto> QueueHandle CopyResponse ''q1'' (Some ''root.trainer'')],
       caller_queues := [''root.trainer'' \<mapsto> QueueHandle Caller ''q1'' (Some ''root.trainer'')],
       work_queues := [''root.trainer'' \<mapsto> QueueHandle Caller ''work'' (Some ''root.trainer'')]\<rparr>"
  by (simp add: example_intercepted_def dynamic_run_wrapper_def register_queues_eq Let_def
      example_simps empty_app_def)

section \<open>A work that was never attached\<close>

text \<open>
  C1. For a work whose name is empty, \<^verbatim>\<open>_dynamic_run_wrapper\<close> raises, whatever \<^verbatim>\<open>args\<close> and
  \<^verbatim>\<open>kwargs\<close> are; the exception is the \<^verbatim>\<open>AttributeError\<close> whose message names the class of
  the work and tells to set the work as an attribute of a \<^verbatim>\<open>LightningFlow\<close> before calling
  the run method.
\<close>

theorem unnamed_work_raises:
  "name (works s w) = [] \<Longrightarrow>
   fst (dynamic_run_wrapper call self args kwargs a w work_run s) =
     Inl (AttributeError (''Failed to create process for '' @ class_name (works s w) @
       ''. Make sure to set this work as an attribute of a `LightningFlow` before calling the run method.''))"
  by (simp add: dynamic_run_wrapper_def never_attached_msg_def)

theorem unnamed_work_raises_witness:
  "name (works example_state 2) = [] \<and>
   fst (dynamic_run_wrapper echo_call example_backend [PyInt 5] [(''batch'', PyInt 5)] 0 2
          (Function ''run'') example_state) =
     Inl (AttributeError ''Failed to create process for Trainer. Make sure to set this work as an attribute of a `LightningFlow` before calling the run method.'')"
proof -
  have h: "name (works example_state 2) = []"
    by (simp add: example_state_def unattached_work_def)
  from unnamed_work_raises [OF h, of echo_call example_backend "[PyInt 5]"
      "[(''batch'', PyInt 5)]" 0 "Function ''run''"]
  show ?thesis using h by (simp add: example_state_def unattached_work_def)
qed

text \<open>
  C7. When the name is empty the raise comes first: the state after the call is the state
  before it (no queue registered, \<^verbatim>\<open>work.run\<close> and \<^verbatim>\<open>work._backend\<close> as they were), and the
  outcome is the same whatever \<^verbatim>\<open>create_work\<close> the backend has, so \<^verbatim>\<open>create_work\<close> is not
  called.
\<close>

theorem unnamed_work_no_mutation:
  "name (works s w) = [] \<Longrightarrow>
   snd (dynamic_run_wrapper call (self\<lparr>create_work := cw\<rparr>) args kwargs a w work_run s) = s \<and>
   dynamic_run_wrapper call (self\<lparr>create_work := cw\<rparr>) args kwargs a w work_run s =
     dynamic_run_wrapper call self args kwargs a w work_run s"
  by (simp add: dynamic_run_wrapper_def)

theorem unnamed_work_no_mutation_witness:
  "name (works example_state 3) = [] \<and>
   snd (dynamic_run_wrapper echo_call (example_backend\<lparr>create_work := failing_create_work\<rparr>)
          [] [] 0 3 (Function ''run'') example_state) = example_state \<and>
   dynamic_run_wrapper echo_call (example_backend\<lparr>create_work := failing_create_work\<rparr>)
          [] [] 0 3 (Function ''run'') example_state =
     dynamic_run_wrapper echo_call example_backend [] [] 0 3 (Function ''run'') example_state"
proof -
  have h: "name (works example_state 3) = []"
    by (simp add: example_state_def unattached_work_def)
  from unnamed_work_no_mutation [OF h, where call = echo_call and self = example_backend
      and cw = failing_create_work and args = "[]" and kwargs = "[]" and a = 0
      and work_run = "Function ''run''"]
  have "snd (dynamic_run_wrapper echo_call (example_backend\<lparr>create_work := failing_create_work\<rparr>)
          [] [] 0 3 (Function ''run'') example_state) = example_state \<and>
        dynamic_run_wrapper echo_call (example_backend\<lparr>create_work := failing_create_work\<rparr>)
          [] [] 0 3 (Function ''run'') example_state =
          dynamic_run_wrapper echo_call example_backend [] [] 0 3 (Function ''run'') example_state" .
  with h show ?thesis by (rule conjI)
qed

section \<open>Preparing the queues of an app\<close>

text \<open>
  C9. \<^verbatim>\<open>_prepare_queues\<close> leaves each of the six per-work registries of the app
  (\<^verbatim>\<open>request_queues\<close>, \<^verbatim>\<open>response_queues\<close>, \<^verbatim>\<open>copy_request_queues\<close>, \<^verbatim>\<open>copy_response_queues\<close>,
  \<^verbatim>\<open>caller_queues\<close>, \<^verbatim>\<open>work_queues\<close>) empty, whatever they held before.
\<close>

theorem prepare_queues_resets_registries:
  "request_queues (apps (prepare_queues self a s) a) = Map.empty \<and>
   response_queues (apps (prepare_queues self a s) a) = Map.empty \<and>
   copy_request_queues (apps (prepare_queues self a s) a) = Map.empty \<and>
   copy_response_queues (apps (prepare_queues self a s) a) = Map.empty \<and>
   caller_queues (apps (prepare_queues self a s) a) = Map.empty \<and>
   work_queues (apps (prepare_queues self a s) a) = Map.empty"
  by (simp add: prepare_queues_def upd_app_def Let_def)

text \<open>
  C4. \<^verbatim>\<open>_prepare_queues\<close>, which assigns the delta, readiness and error queues twice, ends
  in the same state as the variant that assigns each queue once, for every backend (so
  every queuing system and queue id), app and starting state.
\<close>

theorem prepare_queues_duplicates_redundant:
  "prepare_queues self a s = prepare_queues_single self a s"
  by (simp add: prepare_queues_def prepare_queues_single_def upd_app_def Let_def)

section \<open>Registering the queues of a work\<close>

text \<open>
  C2. \<^verbatim>\<open>_register_queues\<close> has no test of its own: it asks the queuing system for the five
  queues and stores them every time. In an app whose registries hold under the work's
  name nothing but queues of this backend, it nevertheless does what registering only
  absent queues does: the two steps end in the same state. After a registration the
  registries are of that kind, so the registration step of a second interception leaves
  the state, and with it every registered queue handle, as it is.
\<close>

theorem registers_only_absent_queues:
  "(registered_by self a w s \<longrightarrow>
      register_queues self a w s = register_queues_if_absent self a w s) \<and>
   registered_by self a w (register_queues self a w s) \<and>
   register_queues self a w (register_queues self a w s) = register_queues self a w s"
proof (intro conjI impI)
  assume "registered_by self a w s"
  then show "register_queues self a w s = register_queues_if_absent self a w s"
    by (rule register_queues_refines)
next
  show "registered_by self a w (register_queues self a w s)"
    by (rule registered_by_register_queues)
next
  show "register_queues self a w (register_queues self a w s) = register_queues self a w s"
    by (rule register_queues_idem)
qed

theorem registers_only_absent_queues_witness:
  "registered_by example_backend 0 0 example_intercepted \<and>
   register_queues example_backend 0 0 example_intercepted =
     register_queues_if_absent example_backend 0 0 example_intercepted \<and>
   caller_queues (apps example_intercepted 0) ''root.trainer'' =
     Some (QueueHandle Caller ''q1'' (Some ''root.trainer'')) \<and>
   apps (snd (dynamic_run_wrapper echo_call example_backend [] [] 0 0 (Function ''run'')
      example_intercepted)) = apps example_intercepted"
proof -
  have present: "registered_by example_backend 0 0 example_intercepted"
    by (simp add: registered_by_def Let_def own_or_absent_def works_example_intercepted
        apps_example_intercepted example_backend_fields named_queues_work_getters)
  from registers_only_absent_queues [where self = example_backend and a = 0 and w = 0
      and s = example_intercepted] present
  have same: "register_queues example_backend 0 0 example_intercepted =
      register_queues_if_absent example_backend 0 0 example_intercepted"
    by blast
  have caller: "caller_queues (apps example_intercepted 0) ''root.trainer'' =
      Some (QueueHandle Caller ''q1'' (Some ''root.trainer''))"
    by (simp add: apps_example_intercepted)
  have again: "apps (snd (dynamic_run_wrapper echo_call example_backend [] [] 0 0 (Function ''run'')
      example_intercepted)) = apps example_intercepted"
    by (simp add: dynamic_run_wrapper_def register_queues_eq Let_def works_example_intercepted
        apps_example_intercepted example_backend_fields named_queues_work_getters
        recording_create_work_def echo_call_def fun_eq_iff)
  from present same caller again show ?thesis by (intro conjI)
qed

section \<open>Wrapping the run method\<close>

text \<open>
  C8. When \<^verbatim>\<open>work.run\<close> is a callable without \<^verbatim>\<open>__name__\<close>, \<^verbatim>\<open>_wrap_run_method\<close> raises
  \<^verbatim>\<open>AttributeError\<close> at the marker check and changes nothing. In particular: when
  \<^verbatim>\<open>work.run\<close> has a name other than \<^verbatim>\<open>_dynamic_run_wrapper\<close>, a first call installs the
  \<^verbatim>\<open>functools.partial\<close> object, and any further call (before the wrapped run is invoked)
  raises instead of returning or wrapping again.
\<close>

theorem wrap_run_method_without_name_raises:
  "(dunder_name (run (works s w)) = None \<longrightarrow>
      wrap_run_method unwrap self a w s =
        (Inl (AttributeError (no_attribute_msg (run (works s w)))), s)) \<and>
   (\<forall>n. dunder_name (run (works s w)) = Some n \<and> n \<noteq> ''_dynamic_run_wrapper'' \<longrightarrow>
      run (works (snd (wrap_run_method unwrap self a w s)) w) =
        Partial (ident self) a w (unwrap (run (works s w))) \<and>
      wrap_run_method unwrap' self' a' w (snd (wrap_run_method unwrap self a w s)) =
        (Inl (AttributeError ''functools.partial object has no attribute __name__''),
         snd (wrap_run_method unwrap self a w s)))"
  by (simp add: wrap_run_method_def upd_work_def no_attribute_msg_def)

theorem wrap_run_method_without_name_raises_witness:
  "dunder_name (run (works example_state 0)) = Some ''run'' \<and>
   ''run'' \<noteq> ''_dynamic_run_wrapper'' \<and>
   run (works example_wrapped 0) = Partial 7 0 0 (Function ''run'') \<and>
   dunder_name (run (works example_wrapped 0)) = None \<and>
   wrap_run_method strip_wrappers other_backend 0 0 example_wrapped =
     (Inl (AttributeError ''functools.partial object has no attribute __name__''), example_wrapped) \<and>
   wrap_run_method strip_wrappers example_backend 0 0 example_wrapped =
     (Inl (AttributeError (no_attribute_msg (Partial 7 0 0 (Function ''run'')))), example_wrapped)"
proof -
  have named: "dunder_name (run (works example_state 0)) = Some ''run''"
    by (simp add: works_example_state)
  have other: "''run'' \<noteq> ''_dynamic_run_wrapper''"
    by simp
  note first = wrap_run_method_without_name_raises [where s = example_state and w = 0
      and unwrap = strip_wrappers and self = example_backend and a = 0
      and unwrap' = strip_wrappers and self' = other_backend and a' = 0,
      folded example_wrapped_def]
  from first named other
  have "run (works example_wrapped 0) =
      Partial (ident example_backend) 0 0 (strip_wrappers (run (works example_state 0)))"
    by blast
  then have partial: "run (works example_wrapped 0) = Partial 7 0 0 (Function ''run'')"
    by (simp add: works_example_state example_backend_fields)
  from first named other
  have again: "wrap_run_method strip_wrappers other_backend 0 0 example_wrapped =
     (Inl (AttributeError ''functools.partial object has no attribute __name__''), example_wrapped)"
    by blast
  have nameless: "dunder_name (run (works example_wrapped 0)) = None"
    by (simp add: partial)
  note second = wrap_run_method_without_name_raises [where s = example_wrapped and w = 0
      and unwrap = strip_wrappers and self = example_backend and a = 0]
  from second nameless
  have "wrap_run_method strip_wrappers example_backend 0 0 example_wrapped =
     (Inl (AttributeError (no_attribute_msg (run (works example_wrapped 0)))), example_wrapped)"
    by blast
  then have same: "wrap_run_method strip_wrappers example_backend 0 0 example_wrapped =
     (Inl (AttributeError (no_attribute_msg (Partial 7 0 0 (Function ''run'')))), example_wrapped)"
    by (simp only: partial)
  from named other partial nameless again same show ?thesis
    by (intro conjI)
qed

text \<open>
  C3 asks for the second call of \<^verbatim>\<open>_wrap_run_method\<close> on a work to be a no-op. On work 0,
  whose \<^verbatim>\<open>run\<close> is the plain method, the first call returns and the second raises
  \<^verbatim>\<open>AttributeError\<close>: the marker \<^verbatim>\<open>__name__ == "_dynamic_run_wrapper"\<close> is looked up on the
  \<^verbatim>\<open>functools.partial\<close> object, which has no \<^verbatim>\<open>__name__\<close>.
\<close>

theorem second_wrap_raises:
  "wrap_run_method strip_wrappers example_backend 0 0 example_state = (Inr (), example_wrapped) \<and>
   run (works example_wrapped 0) = Partial 7 0 0 (Function ''run'') \<and>
   wrap_run_method strip_wrappers example_backend 0 0 example_wrapped =
     (Inl (AttributeError ''functools.partial object has no attribute __name__''), example_wrapped)"
proof -
  have first: "wrap_run_method strip_wrappers example_backend 0 0 example_state =
      (Inr (), example_wrapped)"
    by (simp add: example_wrapped_def wrap_run_method_def works_example_state)
  have installed: "run (works example_wrapped 0) = Partial 7 0 0 (Function ''run'')"
    by (simp add: example_wrapped_def wrap_run_method_def works_example_state
        example_backend_fields)
  have second: "wrap_run_method strip_wrappers example_backend 0 0 example_wrapped =
     (Inl (AttributeError ''functools.partial object has no attribute __name__''), example_wrapped)"
    by (simp add: wrap_run_method_def installed no_attribute_msg_def)
  from first installed second show ?thesis by (intro conjI)
qed

section \<open>Intercepting the first run\<close>

text \<open>
  C5, as the claim states it, fails: \<^verbatim>\<open>create_work\<close> is abstract, and nothing in
  \<^verbatim>\<open>_dynamic_run_wrapper\<close> keeps an implementation from writing to another work. With a
  \<^verbatim>\<open>create_work\<close> that attaches a backend to the next work, intercepting work 0 changes
  work 1.
\<close>

theorem meddling_create_work_breaks_frame:
  "Suc 0 \<noteq> (0::nat) \<and>
   works example_state (Suc 0) =
     \<lparr>name = ''root.worker-1'', class_name = ''Worker'', run = Function ''run'', backend_attr = None\<rparr> \<and>
   works (snd (dynamic_run_wrapper echo_call (example_backend\<lparr>create_work := meddling_create_work\<rparr>)
       [] [] 0 0 (Function ''run'') example_state)) (Suc 0) =
     \<lparr>name = ''root.worker-1'', class_name = ''Worker'', run = Function ''run'',
      backend_attr = Some 9\<rparr> \<and>
   works (snd (dynamic_run_wrapper echo_call (example_backend\<lparr>create_work := meddling_create_work\<rparr>)
       [] [] 0 0 (Function ''run'') example_state)) (Suc 0) \<noteq> works example_state (Suc 0)"
proof -
  have before: "works example_state (Suc 0) =
     \<lparr>name = ''root.worker-1'', class_name = ''Worker'', run = Function ''run'', backend_attr = None\<rparr>"
    by (simp add: works_example_state)
  have after: "works (snd (dynamic_run_wrapper echo_call
       (example_backend\<lparr>create_work := meddling_create_work\<rparr>)
       [] [] 0 0 (Function ''run'') example_state)) (Suc 0) =
     \<lparr>name = ''root.worker-1'', class_name = ''Worker'', run = Function ''run'',
      backend_attr = Some 9\<rparr>"
    by (simp add: dynamic_run_wrapper_def register_queues_eq Let_def works_example_state
        apps_example_state example_backend_fields named_queues_work_getters
        meddling_create_work_def echo_call_def)
  have differ: "works (snd (dynamic_run_wrapper echo_call
       (example_backend\<lparr>create_work := meddling_create_work\<rparr>)
       [] [] 0 0 (Function ''run'') example_state)) (Suc 0) \<noteq> works example_state (Suc 0)"
    unfolding before after by simp
  have distinct: "Suc 0 \<noteq> (0::nat)" by simp
  from distinct before after differ show ?thesis by (intro conjI)
qed

text \<open>
  C5, amended. The statements of \<^verbatim>\<open>_dynamic_run_wrapper\<close> themselves write to the
  registries of the app and to \<^verbatim>\<open>run\<close> and \<^verbatim>\<open>_backend\<close> of the intercepted work \<open>w\<close> only.
  So for a backend whose \<^verbatim>\<open>create_work\<close> changes nothing but these, and a proxy call that
  changes nothing but these, the interception of \<open>w\<close> as a whole changes nothing else,
  whether it returns or raises; in particular every attribute of every other work \<open>w'\<close>
  is as it was.
\<close>

theorem interception_frame:
  assumes cw_frame: "\<forall>t. mutates_only a w t (snd (create_work self a w t))"
    and call_frame: "\<forall>f xs ks t. mutates_only a w t (snd (call f xs ks t))"
  shows "mutates_only a w s (snd (dynamic_run_wrapper call self args kwargs a w work_run s)) \<and>
    (\<forall>w'. w' \<noteq> w \<longrightarrow>
       works (snd (dynamic_run_wrapper call self args kwargs a w work_run s)) w' = works s w')"
proof -
  have main: "mutates_only a w s (snd (dynamic_run_wrapper call self args kwargs a w work_run s))"
  proof (cases "name (works s w) = []")
    case True
    then show ?thesis by (simp add: dynamic_run_wrapper_def mutates_only_refl)
  next
    case False
    let ?s1 = "register_queues self a w s"
    let ?s2 = "upd_work w (\<lambda>x. x\<lparr>run := work_run\<rparr>) ?s1"
    have s2: "mutates_only a w s ?s2"
      by (rule mutates_only_trans [OF mutates_only_register_queues mutates_only_run])
    obtain r s3 where cw: "create_work self a w ?s2 = (r, s3)"
      by (cases "create_work self a w ?s2")
    from cw_frame have "mutates_only a w ?s2 (snd (create_work self a w ?s2))" ..
    with cw have "mutates_only a w ?s2 s3" by simp
    with s2 have s3: "mutates_only a w s s3" by (rule mutates_only_trans)
    show ?thesis
    proof (cases r)
      case (Inl e)
      with False cw s3 show ?thesis
        by (simp add: dynamic_run_wrapper_def Let_def)
    next
      case (Inr u)
      let ?s4 = "upd_work w (\<lambda>x. x\<lparr>backend_attr := Some (ident self)\<rparr>) s3"
      have s4: "mutates_only a w s ?s4"
        by (rule mutates_only_trans [OF s3 mutates_only_backend])
      show ?thesis
      proof (cases "caller_queues (apps ?s4 a) (name (works ?s4 w))")
        case None
        have "dynamic_run_wrapper call self args kwargs a w work_run s =
            (Inl (KeyError (name (works ?s4 w))), ?s4)"
          using False cw Inr None by (simp add: dynamic_run_wrapper_def Let_def)
        with s4 show ?thesis by simp
      next
        case (Some q)
        let ?s5 = "upd_work w (\<lambda>x. x\<lparr>run := ProxyWorkRun work_run (name (works ?s4 w)) w q\<rparr>) ?s4"
        have s5: "mutates_only a w s ?s5"
          by (rule mutates_only_trans [OF s4 mutates_only_run])
        from call_frame
        have "mutates_only a w ?s5 (snd (call (run (works ?s5 w)) args kwargs ?s5))"
          by blast
        with s5 have "mutates_only a w s (snd (call (run (works ?s5 w)) args kwargs ?s5))"
          by (rule mutates_only_trans)
        moreover have "dynamic_run_wrapper call self args kwargs a w work_run s =
            call (run (works ?s5 w)) args kwargs ?s5"
          using False cw Inr Some by (simp add: dynamic_run_wrapper_def Let_def)
        ultimately show ?thesis by simp
      qed
    qed
  qed
  then have "\<forall>w'. w' \<noteq> w \<longrightarrow>
      works (snd (dynamic_run_wrapper call self args kwargs a w work_run s)) w' = works s w'"
    by (simp add: mutates_only_def)
  with main show ?thesis ..
qed

theorem interception_frame_witness:
  "(\<forall>t. mutates_only 0 0 t (snd (create_work example_backend 0 0 t))) \<and>
   (\<forall>f xs ks t. mutates_only 0 0 t (snd (echo_call f xs ks t))) \<and>
   mutates_only 0 0 example_state
     (snd (dynamic_run_wrapper echo_call example_backend [PyInt 5] [] 0 0 (Function ''run'')
        example_state)) \<and>
   Suc 0 \<noteq> 0 \<and>
   works (snd (dynamic_run_wrapper echo_call example_backend [PyInt 5] [] 0 0 (Function ''run'')
      example_state)) (Suc 0) =
     \<lparr>name = ''root.worker-1'', class_name = ''Worker'', run = Function ''run'', backend_attr = None\<rparr>"
proof -
  have c: "\<forall>t. mutates_only 0 0 t (snd (create_work example_backend 0 0 t))"
    by (simp add: example_backend_fields recording_create_work_def mutates_only_def)
  have p: "\<forall>f xs ks t. mutates_only 0 0 t (snd (echo_call f xs ks t))"
    by (simp add: echo_call_def mutates_only_refl)
  note inst = interception_frame [OF c p, where args = "[PyInt 5]" and kwargs = "[]"
      and work_run = "Function ''run''" and s = example_state]
  from inst have m: "mutates_only 0 0 example_state
     (snd (dynamic_run_wrapper echo_call example_backend [PyInt 5] [] 0 0 (Function ''run'')
        example_state))"
    by blast
  have d: "Suc 0 \<noteq> 0" by simp
  from inst d have "works (snd (dynamic_run_wrapper echo_call example_backend [PyInt 5] [] 0 0
      (Function ''run'') example_state)) (Suc 0) = works example_state (Suc 0)"
    by blast
  then have o: "works (snd (dynamic_run_wrapper echo_call example_backend [PyInt 5] [] 0 0
      (Function ''run'') example_state)) (Suc 0) =
     \<lparr>name = ''root.worker-1'', class_name = ''Worker'', run = Function ''run'', backend_attr = None\<rparr>"
    by (simp only: works_example_state)
  from c p m d o show ?thesis by (intro conjI)
qed

text \<open>
  C6. When \<^verbatim>\<open>_dynamic_run_wrapper\<close> returns a value \<open>v\<close> for a named work, there is a state
  \<open>s1\<close>, the one in which the proxy is called, where \<^verbatim>\<open>work.run\<close> is the \<^verbatim>\<open>ProxyWorkRun\<close> made
  of \<^verbatim>\<open>work_run\<close>, the work's name, the work and \<^verbatim>\<open>app.caller_queues[work.name]\<close>, and where
  \<^verbatim>\<open>work._backend\<close> is the backend; outcome and final state of the wrapper are those of
  calling that proxy with \<^verbatim>\<open>args\<close> and \<^verbatim>\<open>kwargs\<close> in \<open>s1\<close>, so \<open>v\<close> is the proxy's result. If
  calling a proxy leaves the work's attributes alone, \<^verbatim>\<open>work.run\<close> and \<^verbatim>\<open>work._backend\<close> have
  these values in the final state as well.
\<close>

theorem interception_postcondition:
  assumes named: "name (works s w) \<noteq> []"
    and ok: "fst (dynamic_run_wrapper call self args kwargs a w work_run s) = Inr v"
  shows "\<exists>s1 q.
      caller_queues (apps s1 a) (name (works s1 w)) = Some q \<and>
      run (works s1 w) = ProxyWorkRun work_run (name (works s1 w)) w q \<and>
      backend_attr (works s1 w) = Some (ident self) \<and>
      dynamic_run_wrapper call self args kwargs a w work_run s =
        call (ProxyWorkRun work_run (name (works s1 w)) w q) args kwargs s1 \<and>
      fst (call (ProxyWorkRun work_run (name (works s1 w)) w q) args kwargs s1) = Inr v \<and>
      ((\<forall>f xs ks t. works (snd (call f xs ks t)) w = works t w) \<longrightarrow>
         run (works (snd (dynamic_run_wrapper call self args kwargs a w work_run s)) w) =
           ProxyWorkRun work_run (name (works s1 w)) w q \<and>
         backend_attr (works (snd (dynamic_run_wrapper call self args kwargs a w work_run s)) w) =
           Some (ident self))"
proof -
  let ?s2 = "upd_work w (\<lambda>x. x\<lparr>run := work_run\<rparr>) (register_queues self a w s)"
  obtain r s3 where cw: "create_work self a w ?s2 = (r, s3)"
    by (cases "create_work self a w ?s2")
  let ?s4 = "upd_work w (\<lambda>x. x\<lparr>backend_attr := Some (ident self)\<rparr>) s3"
  let ?wn = "name (works ?s4 w)"
  from named ok cw obtain u where r: "r = Inr u"
    by (cases r) (simp_all add: dynamic_run_wrapper_def Let_def)
  from named ok cw r obtain q where q: "caller_queues (apps ?s4 a) ?wn = Some q"
    by (cases "caller_queues (apps ?s4 a) ?wn") (simp_all add: dynamic_run_wrapper_def Let_def)
  let ?s5 = "upd_work w (\<lambda>x. x\<lparr>run := ProxyWorkRun work_run ?wn w q\<rparr>) ?s4"
  have run5: "run (works ?s5 w) = ProxyWorkRun work_run (name (works ?s5 w)) w q"
    by simp
  have name5: "name (works ?s5 w) = ?wn"
    by simp
  have lookup5: "caller_queues (apps ?s5 a) (name (works ?s5 w)) = Some q"
    using q by simp
  have backend5: "backend_attr (works ?s5 w) = Some (ident self)"
    by simp
  have eq: "dynamic_run_wrapper call self args kwargs a w work_run s =
      call (ProxyWorkRun work_run (name (works ?s5 w)) w q) args kwargs ?s5"
    using named cw r q by (simp add: dynamic_run_wrapper_def Let_def)
  have res: "fst (call (ProxyWorkRun work_run (name (works ?s5 w)) w q) args kwargs ?s5) = Inr v"
    using ok eq by simp
  have final: "(\<forall>f xs ks t. works (snd (call f xs ks t)) w = works t w) \<longrightarrow>
      run (works (snd (dynamic_run_wrapper call self args kwargs a w work_run s)) w) =
        ProxyWorkRun work_run (name (works ?s5 w)) w q \<and>
      backend_attr (works (snd (dynamic_run_wrapper call self args kwargs a w work_run s)) w) =
        Some (ident self)"
  proof
    assume "\<forall>f xs ks t. works (snd (call f xs ks t)) w = works t w"
    then have "works (snd (call (ProxyWorkRun work_run (name (works ?s5 w)) w q) args kwargs ?s5)) w
        = works ?s5 w"
      by blast
    with eq have "works (snd (dynamic_run_wrapper call self args kwargs a w work_run s)) w =
        works ?s5 w"
      by simp
    then show "run (works (snd (dynamic_run_wrapper call self args kwargs a w work_run s)) w) =
        ProxyWorkRun work_run (name (works ?s5 w)) w q \<and>
      backend_attr (works (snd (dynamic_run_wrapper call self args kwargs a w work_run s)) w) =
        Some (ident self)"
      using run5 backend5 by simp
  qed
  from lookup5 run5 backend5 eq res final show ?thesis
    by blast
qed

theorem interception_postcondition_witness:
  "name (works example_state 0) \<noteq> [] \<and>
   fst (dynamic_run_wrapper echo_call example_backend [PyInt 5] [(''batch'', PyInt 5)] 0 0
          (Function ''run'') example_state) = Inr (PyList [PyInt 5]) \<and>
   (\<forall>f xs ks t. works (snd (echo_call f xs ks t)) 0 = works t 0) \<and>
   works (snd (dynamic_run_wrapper echo_call example_backend [PyInt 5] [(''batch'', PyInt 5)] 0 0
          (Function ''run'') example_state)) 0 =
     \<lparr>name = ''root.trainer'', class_name = ''Trainer'',
      run = ProxyWorkRun (Function ''run'') ''root.trainer'' 0
              (QueueHandle Caller ''q1'' (Some ''root.trainer'')),
      backend_attr = Some 7\<rparr> \<and>
   (\<exists>s1 q.
      caller_queues (apps s1 0) (name (works s1 0)) = Some q \<and>
      run (works s1 0) = ProxyWorkRun (Function ''run'') (name (works s1 0)) 0 q \<and>
      backend_attr (works s1 0) = Some (ident example_backend) \<and>
      dynamic_run_wrapper echo_call example_backend [PyInt 5] [(''batch'', PyInt 5)] 0 0
          (Function ''run'') example_state =
        echo_call (ProxyWorkRun (Function ''run'') (name (works s1 0)) 0 q)
          [PyInt 5] [(''batch'', PyInt 5)] s1 \<and>
      run (works (snd (dynamic_run_wrapper echo_call example_backend [PyInt 5]
          [(''batch'', PyInt 5)] 0 0 (Function ''run'') example_state)) 0) =
        ProxyWorkRun (Function ''run'') (name (works s1 0)) 0 q \<and>
      backend_attr (works (snd (dynamic_run_wrapper echo_call example_backend [PyInt 5]
          [(''batch'', PyInt 5)] 0 0 (Function ''run'') example_state)) 0) =
        Some (ident example_backend))"
proof -
  have named: "name (works example_state 0) \<noteq> []"
    by (simp add: example_simps)
  have ok: "fst (dynamic_run_wrapper echo_call example_backend [PyInt 5] [(''batch'', PyInt 5)] 0 0
          (Function ''run'') example_state) = Inr (PyList [PyInt 5])"
    by (simp add: dynamic_run_wrapper_def register_queues_eq Let_def example_simps)
  have frame: "\<forall>f xs ks t. works (snd (echo_call f xs ks t)) 0 = works t 0"
    by (simp add: echo_call_def)
  have final: "works (snd (dynamic_run_wrapper echo_call example_backend [PyInt 5]
          [(''batch'', PyInt 5)] 0 0 (Function ''run'') example_state)) 0 =
     \<lparr>name = ''root.trainer'', class_name = ''Trainer'',
      run = ProxyWorkRun (Function ''run'') ''root.trainer'' 0
              (QueueHandle Caller ''q1'' (Some ''root.trainer'')),
      backend_attr = Some 7\<rparr>"
    by (simp add: dynamic_run_wrapper_def register_queues_eq Let_def example_simps)
  from interception_postcondition [OF named ok] frame
  have "\<exists>s1 q.
      caller_queues (apps s1 0) (name (works s1 0)) = Some q \<and>
      run (works s1 0) = ProxyWorkRun (Function ''run'') (name (works s1 0)) 0 q \<and>
      backend_attr (works s1 0) = Some (ident example_backend) \<and>
      dynamic_run_wrapper echo_call example_backend [PyInt 5] [(''batch'', PyInt 5)] 0 0
          (Function ''run'') example_state =
        echo_call (ProxyWorkRun (Function ''run'') (name (works s1 0)) 0 q)
          [PyInt 5] [(''batch'', PyInt 5)] s1 \<and>
      run (works (snd (dynamic_run_wrapper echo_call example_backend [PyInt 5]
          [(''batch'', PyInt 5)] 0 0 (Function ''run'') example_state)) 0) =
        ProxyWorkRun (Function ''run'') (name (works s1 0)) 0 q \<and>
      backend_attr (works (snd (dynamic_run_wrapper echo_call example_backend [PyInt 5]
          [(''batch'', PyInt 5)] 0 0 (Function ''run'') example_state)) 0) =
        Some (ident example_backend)"
    by blast
  with named ok frame final show ?thesis by blast
qed

text \<open>
  C10. For a named work let \<open>s0\<close> be the state after the queues are registered and
  \<^verbatim>\<open>work.run = work_run\<close> is executed. In \<open>s0\<close>, \<^verbatim>\<open>work.run\<close> is the raw entry method and
  \<^verbatim>\<open>work._backend\<close> is what it was. Whatever \<^verbatim>\<open>create_work\<close> the backend has, it is run from
  \<open>s0\<close>: if it raises there, the wrapper raises the same exception and ends in the state
  \<^verbatim>\<open>create_work\<close> left, with no proxy installed; if it returns, the backend is attached to
  the state it left and only then \<^verbatim>\<open>work.run\<close> becomes the proxy, which is called.
\<close>

theorem create_work_sees_raw_entry:
  assumes named: "name (works s w) \<noteq> []"
  shows "let s0 = upd_work w (\<lambda>x. x\<lparr>run := work_run\<rparr>) (register_queues self a w s) in
     run (works s0 w) = work_run \<and>
     backend_attr (works s0 w) = backend_attr (works s w) \<and>
     (\<forall>cw e s1. cw a w s0 = (Inl e, s1) \<longrightarrow>
        dynamic_run_wrapper call (self\<lparr>create_work := cw\<rparr>) args kwargs a w work_run s =
          (Inl e, s1)) \<and>
     (\<forall>cw u s1 q. cw a w s0 = (Inr u, s1) \<and>
          caller_queues (apps s1 a) (name (works s1 w)) = Some q \<longrightarrow>
        dynamic_run_wrapper call (self\<lparr>create_work := cw\<rparr>) args kwargs a w work_run s =
          call (ProxyWorkRun work_run (name (works s1 w)) w q) args kwargs
            (upd_work w (\<lambda>x. x\<lparr>run := ProxyWorkRun work_run (name (works s1 w)) w q\<rparr>)
              (upd_work w (\<lambda>x. x\<lparr>backend_attr := Some (ident self)\<rparr>) s1)))"
proof -
  have reg: "register_queues (self\<lparr>create_work := cw\<rparr>) a w s = register_queues self a w s" for cw
    by (simp add: register_queues_eq)
  from named show ?thesis
    by (simp add: Let_def dynamic_run_wrapper_def reg)
qed

theorem create_work_sees_raw_entry_witness:
  "name (works example_state 0) \<noteq> [] \<and>
   run (works example_pre_create 0) = Function ''run'' \<and>
   backend_attr (works example_pre_create 0) = None \<and>
   failing_create_work 0 0 example_pre_create =
     (Inl (OtherError ''ProvisioningError''), example_pre_create) \<and>
   dynamic_run_wrapper echo_call (example_backend\<lparr>create_work := failing_create_work\<rparr>)
       [PyInt 5] [] 0 0 (Function ''run'') example_state =
     (Inl (OtherError ''ProvisioningError''), example_pre_create) \<and>
   fst (recording_create_work 0 0 example_pre_create) = Inr () \<and>
   caller_queues (apps (snd (recording_create_work 0 0 example_pre_create)) 0)
       (name (works (snd (recording_create_work 0 0 example_pre_create)) 0)) =
     Some (QueueHandle Caller ''q1'' (Some ''root.trainer'')) \<and>
   dynamic_run_wrapper echo_call (example_backend\<lparr>create_work := recording_create_work\<rparr>)
       [PyInt 5] [] 0 0 (Function ''run'') example_state =
     echo_call
       (ProxyWorkRun (Function ''run'') ''root.trainer'' 0
          (QueueHandle Caller ''q1'' (Some ''root.trainer''))) [PyInt 5] []
       (upd_work 0 (\<lambda>x. x\<lparr>run := ProxyWorkRun (Function ''run'') ''root.trainer'' 0
            (QueueHandle Caller ''q1'' (Some ''root.trainer''))\<rparr>)
         (upd_work 0 (\<lambda>x. x\<lparr>backend_attr := Some 7\<rparr>)
           (snd (recording_create_work 0 0 example_pre_create))))"
proof -
  let ?s1 = "snd (recording_create_work 0 0 example_pre_create)"
  let ?q = "QueueHandle Caller ''q1'' (Some ''root.trainer'')"
  have named: "name (works example_state 0) \<noteq> []"
    by (simp add: example_simps)
  have fails: "failing_create_work 0 0 example_pre_create =
      (Inl (OtherError ''ProvisioningError''), example_pre_create)"
    by (simp add: failing_create_work_def)
  have records: "recording_create_work 0 0 example_pre_create = (Inr (), ?s1)"
    by (simp add: recording_create_work_def)
  have nm: "name (works ?s1 0) = ''root.trainer''"
    by (simp add: example_pre_create_def recording_create_work_def works_example_state)
  have lookup: "caller_queues (apps ?s1 0) (name (works ?s1 0)) = Some ?q"
    unfolding nm
    by (simp add: example_pre_create_def register_queues_eq recording_create_work_def
        works_example_state example_backend_fields named_queues_work_getters)
  note inst = create_work_sees_raw_entry [OF named, where work_run = "Function ''run''"
      and self = example_backend and a = 0 and call = echo_call and args = "[PyInt 5]"
      and kwargs = "[]", unfolded Let_def, folded example_pre_create_def]
  from inst have raw: "run (works example_pre_create 0) = Function ''run''"
    by blast
  from inst have unattached: "backend_attr (works example_pre_create 0) = backend_attr (works example_state 0)"
    by blast
  then have unattached': "backend_attr (works example_pre_create 0) = None"
    by (simp add: works_example_state)
  from inst fails
  have raised: "dynamic_run_wrapper echo_call (example_backend\<lparr>create_work := failing_create_work\<rparr>)
       [PyInt 5] [] 0 0 (Function ''run'') example_state =
     (Inl (OtherError ''ProvisioningError''), example_pre_create)"
    by blast
  from inst records lookup
  have "dynamic_run_wrapper echo_call (example_backend\<lparr>create_work := recording_create_work\<rparr>)
       [PyInt 5] [] 0 0 (Function ''run'') example_state =
     echo_call (ProxyWorkRun (Function ''run'') (name (works ?s1 0)) 0 ?q) [PyInt 5] []
       (upd_work 0 (\<lambda>x. x\<lparr>run := ProxyWorkRun (Function ''run'') (name (works ?s1 0)) 0 ?q\<rparr>)
         (upd_work 0 (\<lambda>x. x\<lparr>backend_attr := Some (ident example_backend)\<rparr>) ?s1))"
    by blast
  then have proxied: "dynamic_run_wrapper echo_call (example_backend\<lparr>create_work := recording_create_work\<rparr>)
       [PyInt 5] [] 0 0 (Function ''run'') example_state =
     echo_call (ProxyWorkRun (Function ''run'') ''root.trainer'' 0 ?q) [PyInt 5] []
       (upd_work 0 (\<lambda>x. x\<lparr>run := ProxyWorkRun (Function ''run'') ''root.trainer'' 0 ?q\<rparr>)
         (upd_work 0 (\<lambda>x. x\<lparr>backend_attr := Some 7\<rparr>) ?s1))"
    by (simp only: nm example_backend_fields)
  have ok: "fst (recording_create_work 0 0 example_pre_create) = Inr ()"
    by (simp add: recording_create_work_def)
  from named raw unattached' fails raised ok lookup proxied show ?thesis
    by (intro conjI)
qed

end
